theory Spec2Isabelle
  imports Complex_Main "HOL-Library.Sublist"
begin

section \<open>The function-calling conversation loop of \<^verbatim>\<open>main.go\<close>\<close>

text \<open>
  The program talks to three outside services (the chat backend, a geocoding service and
  a weather service) and decodes JSON with the standard library. None of that code is in
  the repository, so it enters the model as the fields of an environment \<open>env\<close>; the
  functions of \<^verbatim>\<open>main.go\<close> are translated one by one on top of it.

  Every function threads a trace: the list of events (requests sent, lines printed)
  the run has produced so far. An outside service may answer differently each time it is
  asked, so each environment function also reads the trace at the moment of the call.

  A Go function returning \<^verbatim>\<open>(value, error)\<close> returns a pair here, with
  \<open>None\<close> for a \<^verbatim>\<open>nil\<close> error. A runtime panic is the result \<open>Panicked\<close>.
\<close>

subsection \<open>Values of the Go runtime\<close>

text \<open>An \<^verbatim>\<open>error\<close> value, identified with the text its \<^verbatim>\<open>Error()\<close> method gives.\<close>

datatype go_error = Err string

fun Error :: "go_error \<Rightarrow> string" where
  "Error (Err s) = s"

text \<open>A \<^verbatim>\<open>[]byte\<close>: \<open>None\<close> is the \<^verbatim>\<open>nil\<close> slice.\<close>

type_synonym bytes = "string option"

text \<open>The conversion \<^verbatim>\<open>string(b)\<close>: the \<^verbatim>\<open>nil\<close> slice gives the empty string.\<close>

fun string_of_bytes :: "bytes \<Rightarrow> string" where
  "string_of_bytes None = []"
| "string_of_bytes (Some b) = b"

text \<open>
  What \<^verbatim>\<open>json.Unmarshal\<close> stores in an \<^verbatim>\<open>interface{}\<close>: \<^verbatim>\<open>nil\<close>, a
  \<^verbatim>\<open>bool\<close>, a \<^verbatim>\<open>float64\<close> (kept as the rational it denotes; the program never
  computes with it), a \<^verbatim>\<open>string\<close>, a slice or a nested map.
\<close>

datatype go_value =
    GoNil
  | GoBool bool
  | GoFloat64 rat
  | GoString string
  | GoSlice "go_value list"
  | GoMap "(string \<times> go_value) list"

text \<open>
  The two runtime panics the program can reach: \<open>IndexOutOfRange i n\<close> is
  ``index out of range [i] with length n'', and \<open>InterfaceConversion v\<close> is the failed
  assertion that the interface value \<open>v\<close> is a \<^verbatim>\<open>string\<close>.
\<close>

datatype panic =
    IndexOutOfRange nat nat
  | InterfaceConversion go_value

datatype 'a outcome = Panicked panic | Returned 'a

text \<open>
  Reading \<^verbatim>\<open>args[key]\<close> from a \<^verbatim>\<open>map[string]interface{}\<close>: a missing key gives the
  zero value, the \<^verbatim>\<open>nil\<close> interface.
\<close>

definition index_map :: "(string \<rightharpoonup> go_value) \<Rightarrow> string \<Rightarrow> go_value" where
  "index_map args key = (case args key of None \<Rightarrow> GoNil | Some v \<Rightarrow> v)"

text \<open>
  The one-result type assertion \<^verbatim>\<open>v.(string)\<close>: it panics unless the dynamic type
  of \<open>v\<close> is \<^verbatim>\<open>string\<close>.
\<close>

fun assert_string :: "go_value \<Rightarrow> string outcome" where
  "assert_string (GoString s) = Returned s"
| "assert_string v = Panicked (InterfaceConversion v)"

subsection \<open>The data of the chat API\<close>

text \<open>
  The structs of the client library, with the fields the program reads or writes. The
  \<^verbatim>\<open>Name\<close> of a \<^verbatim>\<open>FunctionCall\<close> is \<open>CallName\<close> and that of a
  \<^verbatim>\<open>FunctionDefinition\<close> is \<open>DefName\<close>, to keep them apart from the \<open>Name\<close> of a
  message.
\<close>

record function_call =
  CallName :: string
  Arguments :: string

record message =
  Role :: string
  Content :: string
  Name :: string
  FunctionCall :: "function_call option"

text \<open>
  The \<^verbatim>\<open>Parameters\<close> of a function definition are a JSON schema, written in the
  source as raw JSON text; here the same schema as a structure.
\<close>

record property =
  PropName :: string
  PropType :: string
  PropDescription :: string

record parameters =
  SchemaType :: string
  Required :: "string list"
  Properties :: "property list"

record function_definition =
  DefName :: string
  Description :: string
  Parameters :: parameters

record request =
  Model :: string
  Messages :: "message list"
  Functions :: "function_definition list"

record choice =
  Index :: nat
  Message :: message
  FinishReason :: string

record response =
  Choices :: "choice list"

text \<open>
  An HTTP response. \<open>Body\<close> stands for the body reader and holds what
  \<^verbatim>\<open>ioutil.ReadAll\<close> yields on it: the bytes read and the read error, if any.
\<close>

record http_response =
  StatusCode :: nat
  Body :: "bytes \<times> go_error option"

subsection \<open>Events and the environment\<close>

datatype event =
    ChatCall request
  | HttpGet string
  | BodyClose string
  | DebugInvokeFunction string "string \<rightharpoonup> go_value"
  | DebugChoice nat message

type_synonym trace = "event list"

record env =
  openWeatherMapAPIKEY :: string
  openAIAPIKEY :: string
  http_Get :: "trace \<Rightarrow> string \<Rightarrow> http_response \<times> go_error option"
  json_Unmarshal :: "string \<Rightarrow> (string \<rightharpoonup> go_value) \<times> go_error option"
  CreateChatCompletion :: "trace \<Rightarrow> string \<Rightarrow> request \<Rightarrow> response \<times> go_error option"

definition ioutil_ReadAll :: "bytes \<times> go_error option \<Rightarrow> bytes \<times> go_error option" where
  "ioutil_ReadAll body = body"

subsection \<open>The tool handlers\<close>

definition geocode_url :: "string \<Rightarrow> string" where
  "geocode_url location =
     ''https://geocoding-api.open-meteo.com/v1/search?name='' @ location @ ''&count=1&format=json''"

definition geocode :: "env \<Rightarrow> trace \<Rightarrow> string \<Rightarrow> (bytes \<times> go_error option) \<times> trace" where
  "geocode e t location =
     (let url = geocode_url location;
          (resp, err) = http_Get e t url;
          t1 = t @ [HttpGet url]
      in case err of
           Some x \<Rightarrow> ((None, Some x), t1)
         | None \<Rightarrow> (ioutil_ReadAll (Body resp), t1 @ [BodyClose url]))"

definition weather_url :: "env \<Rightarrow> string \<Rightarrow> string \<Rightarrow> string" where
  "weather_url e lat lon =
     ''https://api.openweathermap.org/data/2.5/weather?units=metric&lat=$'' @ lat
       @ ''&lon='' @ lon @ ''&appid='' @ openWeatherMapAPIKEY e"

definition weather :: "env \<Rightarrow> trace \<Rightarrow> string \<Rightarrow> string \<Rightarrow> (bytes \<times> go_error option) \<times> trace" where
  "weather e t lat lon =
     (let url = weather_url e lat lon;
          (resp, err) = http_Get e t url;
          t1 = t @ [HttpGet url]
      in case err of
           Some x \<Rightarrow> ((None, Some x), t1)
         | None \<Rightarrow> (ioutil_ReadAll (Body resp), t1 @ [BodyClose url]))"

subsection \<open>The model gateway\<close>

definition paramGeocode :: parameters where
  "paramGeocode =
     \<lparr>SchemaType = ''object'', Required = [''location''],
      Properties = [\<lparr>PropName = ''location'', PropType = ''string'',
                     PropDescription = ''The city, e.g. New York''\<rparr>]\<rparr>"

definition paramWeather :: parameters where
  "paramWeather =
     \<lparr>SchemaType = ''object'', Required = [''latitude'', ''longitude''],
      Properties = [\<lparr>PropName = ''latitude'', PropType = ''number'',
                     PropDescription = ''The latitude''\<rparr>,
                    \<lparr>PropName = ''longitude'', PropType = ''number'',
                     PropDescription = ''The longitude''\<rparr>]\<rparr>"

definition GPT3Dot5Turbo :: string where
  "GPT3Dot5Turbo = ''gpt-3.5-turbo''"

definition chat_request :: "message list \<Rightarrow> request" where
  "chat_request messages =
     \<lparr>Model = GPT3Dot5Turbo,
      Messages = messages,
      Functions =
        [\<lparr>DefName = ''geocode'',
          Description = ''Get the latitude and longitude of a location'',
          Parameters = paramGeocode\<rparr>,
         \<lparr>DefName = ''weather'',
          Description = ''Get the current weather in a given location'',
          Parameters = paramWeather\<rparr>]\<rparr>"

definition chat :: "env \<Rightarrow> trace \<Rightarrow> message list \<Rightarrow> (response \<times> go_error option) \<times> trace" where
  "chat e t messages =
     (CreateChatCompletion e t (openAIAPIKEY e) (chat_request messages),
      t @ [ChatCall (chat_request messages)])"

subsection \<open>The dispatcher\<close>

definition invokeFunction ::
  "env \<Rightarrow> trace \<Rightarrow> string \<Rightarrow> string \<Rightarrow> (bytes \<times> go_error option) outcome \<times> trace" where
  "invokeFunction e t name argsIn =
     (let (args, err) = json_Unmarshal e argsIn;
          t1 = t @ [DebugInvokeFunction name args]
      in case err of
           Some x \<Rightarrow> (Returned (None, Some x), t1)
         | None \<Rightarrow>
             if name = ''geocode'' then
               (case assert_string (index_map args ''location'') of
                  Panicked p \<Rightarrow> (Panicked p, t1)
                | Returned location \<Rightarrow>
                    (case geocode e t1 location of (r, t2) \<Rightarrow> (Returned r, t2)))
             else if name = ''weather'' then
               (case assert_string (index_map args ''latitude'') of
                  Panicked p \<Rightarrow> (Panicked p, t1)
                | Returned lat \<Rightarrow>
                    (case assert_string (index_map args ''longitude'') of
                       Panicked p \<Rightarrow> (Panicked p, t1)
                     | Returned lon \<Rightarrow>
                         (case weather e t1 lat lon of (r, t2) \<Rightarrow> (Returned r, t2))))
             else (Returned (None, None), t1))"

subsection \<open>The orchestrator\<close>

text \<open>
  The Go function \<^verbatim>\<open>converse\<close> is \<open>converse_go\<close> here, since HOL already has a
  constant of that name. The range loop prints one debug line per choice before element
  0 is read; reading it from an empty list is the index panic. The recursion ends
  because each call adds two messages and stops beyond 13.
\<close>

definition debug_choices :: "choice list \<Rightarrow> event list" where
  "debug_choices cs = map (\<lambda>(i, c). DebugChoice i (Message c)) (enumerate 0 cs)"

definition ChatMessageRoleFunction :: string where
  "ChatMessageRoleFunction = ''function''"

definition function_message :: "function_call \<Rightarrow> bytes \<Rightarrow> message" where
  "function_message functionCall resp =
     \<lparr>Role = ChatMessageRoleFunction,
      Content = string_of_bytes resp,
      Name = CallName functionCall,
      FunctionCall = None\<rparr>"

function converse_go :: "env \<Rightarrow> trace \<Rightarrow> message list \<Rightarrow> (string \<times> go_error option) outcome \<times> trace" where
  "converse_go e t messages =
     (if length messages > 13 then
        (Returned ([], Some (Err ''too in-depth conversation'')), t)
      else
        case chat e t messages of
          ((resp, Some x), t1) \<Rightarrow>
            (Returned ([], Some (Err (''failed chat: '' @ Error x))), t1)
        | ((resp, None), t1) \<Rightarrow>
            (case (Choices resp, t1 @ debug_choices (Choices resp)) of
               ([], t2) \<Rightarrow> (Panicked (IndexOutOfRange 0 0), t2)
             | (c # _, t2) \<Rightarrow>
                 (case FunctionCall (Message c) of
                    None \<Rightarrow> (Returned (Content (Message c), None), t2)
                  | Some functionCall \<Rightarrow>
                      (case invokeFunction e t2 (CallName functionCall) (Arguments functionCall) of
                         (Panicked p, t3) \<Rightarrow> (Panicked p, t3)
                       | (Returned (r, Some x), t3) \<Rightarrow>
                           (Returned ([], Some (Err (''failed invoke function: '' @ Error x))), t3)
                       | (Returned (r, None), t3) \<Rightarrow>
                           converse_go e t3
                             (messages @ [Message c, function_message functionCall r])))))"
  by pat_completeness auto
termination
  by (relation "measure (\<lambda>(e, t, messages). 14 - length messages)") auto

definition query :: "env \<Rightarrow> trace \<Rightarrow> string \<Rightarrow> (string \<times> go_error option) outcome \<times> trace" where
  "query e t inquiry =
     converse_go e t
       [\<lparr>Role = ''system'',
         Content = ''Only use the functions you have been provided with.'',
         Name = [], FunctionCall = None\<rparr>,
        \<lparr>Role = ''system'',
         Content = ''Only answer in 50 words or less.'',
         Name = [], FunctionCall = None\<rparr>,
        \<lparr>Role = ''user'',
         Content = inquiry,
         Name = [], FunctionCall = None\<rparr>]"

subsection \<open>A sample environment\<close>

text \<open>
  A small concrete environment on which the theorems below are evaluated. Its decoder
  stands in for \<^verbatim>\<open>json.Unmarshal\<close> on the three payloads named here and reports any
  other text as malformed; its backend asks for \<open>geocode\<close>, then for \<open>weather\<close>, then
  answers.
\<close>

definition paris_args :: string where
  "paris_args = ''{\"location\":\"Paris\"}''"

definition number_coords_args :: string where
  "number_coords_args = ''{\"latitude\":48.85,\"longitude\":2.35}''"

definition string_coords_args :: string where
  "string_coords_args = ''{\"latitude\":\"48.85\",\"longitude\":\"2.35\"}''"

definition paris_fields :: "string \<rightharpoonup> go_value" where
  "paris_fields = [''location'' \<mapsto> GoString ''Paris'']"

definition number_coords_fields :: "string \<rightharpoonup> go_value" where
  "number_coords_fields =
     [''latitude'' \<mapsto> GoFloat64 (977 / 20), ''longitude'' \<mapsto> GoFloat64 (47 / 20)]"

definition string_coords_fields :: "string \<rightharpoonup> go_value" where
  "string_coords_fields =
     [''latitude'' \<mapsto> GoString ''48.85'', ''longitude'' \<mapsto> GoString ''2.35'']"

definition demo_Unmarshal :: "string \<Rightarrow> (string \<rightharpoonup> go_value) \<times> go_error option" where
  "demo_Unmarshal s =
     (if s = paris_args then (paris_fields, None)
      else if s = number_coords_args then (number_coords_fields, None)
      else if s = string_coords_args then (string_coords_fields, None)
      else (Map.empty, Some (Err ''unexpected end of JSON input'')))"

definition demo_http_Get :: "trace \<Rightarrow> string \<Rightarrow> http_response \<times> go_error option" where
  "demo_http_Get t url =
     (\<lparr>StatusCode = 200,
       Body = (Some (if url = geocode_url ''Paris'' then ''48.85,2.35'' else ''21 C, clear''), None)\<rparr>,
      None)"

definition assistant_call :: "string \<Rightarrow> string \<Rightarrow> message" where
  "assistant_call name args =
     \<lparr>Role = ''assistant'', Content = [], Name = [],
      FunctionCall = Some \<lparr>CallName = name, Arguments = args\<rparr>\<rparr>"

definition assistant_answer :: "string \<Rightarrow> message" where
  "assistant_answer s = \<lparr>Role = ''assistant'', Content = s, Name = [], FunctionCall = None\<rparr>"

definition one_choice :: "message \<Rightarrow> response \<times> go_error option" where
  "one_choice m = (\<lparr>Choices = [\<lparr>Index = 0, Message = m, FinishReason = ''stop''\<rparr>]\<rparr>, None)"

definition demo_CreateChatCompletion :: "trace \<Rightarrow> string \<Rightarrow> request \<Rightarrow> response \<times> go_error option" where
  "demo_CreateChatCompletion t key req =
     (if length (Messages req) = 3 then one_choice (assistant_call ''geocode'' paris_args)
      else if length (Messages req) = 5 then one_choice (assistant_call ''weather'' string_coords_args)
      else one_choice (assistant_answer ''Clear and 21 C in Paris.''))"

definition demo_env :: env where
  "demo_env =
     \<lparr>openWeatherMapAPIKEY = ''owm-key'',
      openAIAPIKEY = ''sk-key'',
      http_Get = demo_http_Get,
      json_Unmarshal = demo_Unmarshal,
      CreateChatCompletion = demo_CreateChatCompletion\<rparr>"

text \<open>The same environment with a backend that is down.\<close>

definition backend_down_env :: env where
  "backend_down_env =
     demo_env\<lparr>CreateChatCompletion := \<lambda>t key req. (\<lparr>Choices = []\<rparr>, Some (Err ''connection refused''))\<rparr>"

text \<open>A backend that answers without error and with no choice at all.\<close>

definition no_choice_env :: env where
  "no_choice_env = demo_env\<lparr>CreateChatCompletion := \<lambda>t key req. (\<lparr>Choices = []\<rparr>, None)\<rparr>"

text \<open>A backend that follows the advertised schema and sends the coordinates as numbers.\<close>

definition number_coords_env :: env where
  "number_coords_env =
     demo_env\<lparr>CreateChatCompletion :=
       \<lambda>t key req. one_choice (assistant_call ''weather'' number_coords_args)\<rparr>"

definition user_message :: "string \<Rightarrow> message" where
  "user_message s = \<lparr>Role = ''user'', Content = s, Name = [], FunctionCall = None\<rparr>"

definition system_message :: "string \<Rightarrow> message" where
  "system_message s = \<lparr>Role = ''system'', Content = s, Name = [], FunctionCall = None\<rparr>"

definition demo_transcript :: "message list" where
  "demo_transcript =
     [system_message ''Only use the functions you have been provided with.'',
      system_message ''Only answer in 50 words or less.'',
      user_message ''What is the weather in Paris?'']"

text \<open>The trace of the sample run after its first tool round trip.\<close>

definition demo_geocode_trace :: trace where
  "demo_geocode_trace =
     [ChatCall (chat_request demo_transcript),
      DebugChoice 0 (assistant_call ''geocode'' paris_args),
      DebugInvokeFunction ''geocode'' paris_fields,
      HttpGet (geocode_url ''Paris''),
      BodyClose (geocode_url ''Paris'')]"

section \<open>Properties\<close>

declare converse_go.simps [simp del]

subsection \<open>The sample environment, evaluated\<close>

lemma demo_Unmarshal_paris:
  "demo_Unmarshal paris_args = (paris_fields, None)"
  by (simp add: demo_Unmarshal_def)

lemma demo_Unmarshal_number:
  "demo_Unmarshal number_coords_args
     = (number_coords_fields, None)"
  by (simp add: demo_Unmarshal_def paris_args_def number_coords_args_def)

lemma demo_Unmarshal_string:
  "demo_Unmarshal string_coords_args
     = (string_coords_fields, None)"
  by (simp add: demo_Unmarshal_def paris_args_def number_coords_args_def string_coords_args_def)

lemma demo_Unmarshal_empty:
  "demo_Unmarshal [] = (Map.empty, Some (Err ''unexpected end of JSON input''))"
  by (simp add: demo_Unmarshal_def paris_args_def number_coords_args_def string_coords_args_def)

lemma paris_fields_location: "paris_fields ''location'' = Some (GoString ''Paris'')"
  by (simp add: paris_fields_def)

lemma number_coords_fields_latitude:
  "number_coords_fields ''latitude'' = Some (GoFloat64 (977 / 20))"
  by (simp add: number_coords_fields_def)

lemma string_coords_fields_latitude:
  "string_coords_fields ''latitude'' = Some (GoString ''48.85'')"
  by (simp add: string_coords_fields_def)

lemma string_coords_fields_longitude:
  "string_coords_fields ''longitude'' = Some (GoString ''2.35'')"
  by (simp add: string_coords_fields_def)

lemma demo_geocode_paris:
  "geocode demo_env [DebugInvokeFunction ''geocode'' paris_fields] ''Paris''
     = ((Some ''48.85,2.35'', None),
        [DebugInvokeFunction ''geocode'' paris_fields,
         HttpGet (geocode_url ''Paris''), BodyClose (geocode_url ''Paris'')])"
  by (simp add: geocode_def demo_env_def demo_http_Get_def ioutil_ReadAll_def Let_def)

text \<open>
  The whole sample run: the model asks for \<open>geocode\<close>, then for \<open>weather\<close> with string
  coordinates, then answers, and \<open>query\<close> returns that answer.
\<close>

lemma demo_run:
  "fst (query demo_env [] ''What is the weather in Paris?'')
     = Returned (''Clear and 21 C in Paris.'', None)"
  by (simp add: query_def converse_go.simps chat_def chat_request_def demo_env_def
      demo_CreateChatCompletion_def one_choice_def assistant_call_def assistant_answer_def
      debug_choices_def invokeFunction_def demo_Unmarshal_paris demo_Unmarshal_string
      index_map_def paris_fields_location string_coords_fields_latitude
      string_coords_fields_longitude geocode_def weather_def demo_http_Get_def
      ioutil_ReadAll_def Let_def function_message_def)

subsection \<open>The trace only grows\<close>

lemma geocode_trace: "prefix t (snd (geocode e t location))"
  by (simp add: geocode_def Let_def split: prod.split option.split)

lemma weather_trace: "prefix t (snd (weather e t lat lon))"
  by (simp add: weather_def Let_def split: prod.split option.split)

lemma invokeFunction_trace: "prefix t (snd (invokeFunction e t name argsIn))"
proof -
  have g: "prefix t (snd (geocode e (t @ [ev]) l))" for ev l
    using geocode_trace [of "t @ [ev]" e l] by (meson prefix_order.trans prefixI)
  have w: "prefix t (snd (weather e (t @ [ev]) la lo))" for ev la lo
    using weather_trace [of "t @ [ev]" e la lo] by (meson prefix_order.trans prefixI)
  show ?thesis
    by (simp add: invokeFunction_def Let_def case_prod_beta g w
        split: outcome.split option.split)
qed

lemma invokeFunction_trace_app:
  "invokeFunction e (t @ ev # d) name argsIn = (out, t3) \<Longrightarrow> prefix (t @ [ev]) t3"
  using invokeFunction_trace [of "t @ ev # d" e name argsIn]
  by (auto simp: prefix_def)

text \<open>One unfolding of \<open>converse_go\<close> for each way its first step can go.\<close>

lemma converse_go_answer_step:
  assumes "length ms \<le> 13"
    and "CreateChatCompletion e t (openAIAPIKEY e) (chat_request ms) = (resp, None)"
    and "Choices resp = c # cs"
    and "FunctionCall (Message c) = None"
  shows "converse_go e t ms
    = (Returned (Content (Message c), None),
       t @ ChatCall (chat_request ms) # debug_choices (c # cs))"
  using assms by (subst converse_go.simps) (simp add: chat_def)

lemma converse_go_call_step:
  assumes "length ms \<le> 13"
    and "CreateChatCompletion e t (openAIAPIKEY e) (chat_request ms) = (resp, None)"
    and "Choices resp = c # cs"
    and "FunctionCall (Message c) = Some fc"
  shows "converse_go e t ms =
    (case invokeFunction e (t @ ChatCall (chat_request ms) # debug_choices (c # cs))
            (CallName fc) (Arguments fc) of
       (Panicked p, t3) \<Rightarrow> (Panicked p, t3)
     | (Returned (r, Some x), t3) \<Rightarrow>
         (Returned ([], Some (Err (''failed invoke function: '' @ Error x))), t3)
     | (Returned (r, None), t3) \<Rightarrow>
         converse_go e t3 (ms @ [Message c, function_message fc r]))"
  using assms by (subst converse_go.simps) (simp add: chat_def)

lemma converse_go_trace: "prefix t (snd (converse_go e t ms))"
proof (induction e t ms rule: converse_go.induct)
  case (1 e t messages)
  show ?case
  proof (cases "13 < length messages")
    case True
    then show ?thesis
      by (subst converse_go.simps) simp
  next
    case False
    then have len: "length messages \<le> 13"
      by simp
    obtain resp err
      where c: "CreateChatCompletion e t (openAIAPIKEY e) (chat_request messages) = (resp, err)"
      by (cases "CreateChatCompletion e t (openAIAPIKEY e) (chat_request messages)")
    let ?t2 = "t @ ChatCall (chat_request messages) # debug_choices (Choices resp)"
    show ?thesis
    proof (cases err)
      case (Some x)
      with False c show ?thesis
        by (subst converse_go.simps) (simp add: chat_def)
    next
      case None
      note ok = c [unfolded None]
      show ?thesis
      proof (cases "Choices resp")
        case Nil
        with False ok show ?thesis
          by (subst converse_go.simps) (simp add: chat_def)
      next
        case (Cons ch rest)
        show ?thesis
        proof (cases "FunctionCall (Message ch)")
          case None
          then show ?thesis
            by (simp add: converse_go_answer_step [OF len ok Cons])
        next
          case (Some fc)
          obtain out t3 where i: "invokeFunction e ?t2 (CallName fc) (Arguments fc) = (out, t3)"
            by (cases "invokeFunction e ?t2 (CallName fc) (Arguments fc)")
          have p3: "prefix t t3"
            using invokeFunction_trace [of ?t2 e "CallName fc" "Arguments fc"] i
            by (auto simp: prefix_def)
          note step = converse_go_call_step [OF len ok Cons Some]
          show ?thesis
          proof (cases out)
            case (Panicked p)
            with i p3 Cons show ?thesis
              by (simp add: step)
          next
            case (Returned pr)
            obtain r err' where pr: "pr = (r, err')"
              by (cases pr)
            show ?thesis
            proof (cases err')
              case (Some x)
              with i p3 Cons Returned pr show ?thesis
                by (simp add: step)
            next
              case None
              have "prefix t3 (snd (converse_go e t3 (messages @ [Message ch, function_message fc r])))"
                using "1.IH" False ok Cons \<open>FunctionCall (Message ch) = Some fc\<close> i Returned pr None
                by (simp add: chat_def)
              with p3 have "prefix t (snd (converse_go e t3 (messages @ [Message ch, function_message fc r])))"
                by (rule prefix_order.trans)
              with i Cons Returned pr None show ?thesis
                by (simp add: step)
            qed
          qed
        qed
      qed
    qed
  qed
qed

lemma converse_go_trace_from: "prefix t1 t3 \<Longrightarrow> prefix t1 (snd (converse_go e t3 ms))"
  using converse_go_trace prefix_order.trans by blast

text \<open>Within the depth bound the first event of a run is the chat request for its transcript.\<close>

lemma converse_go_prefix_chat:
  "length ms \<le> 13 \<Longrightarrow> prefix (t @ [ChatCall (chat_request ms)]) (snd (converse_go e t ms))"
  by (subst converse_go.simps)
    (auto simp: chat_def converse_go_trace_from dest: invokeFunction_trace_app
      split: prod.split option.split list.split outcome.split)

lemma take_prefix_snoc: "prefix (t @ [x]) ys \<Longrightarrow> take (Suc (length t)) ys = t @ [x]"
  by (auto simp: prefix_def)

lemma converse_go_first_event:
  "length ms \<le> 13 \<Longrightarrow>
   take (Suc (length t)) (snd (converse_go e t ms)) = t @ [ChatCall (chat_request ms)]"
  by (rule take_prefix_snoc) (rule converse_go_prefix_chat)

subsection \<open>The depth bound\<close>

text \<open>
  C1. A transcript of more than 13 messages makes \<^verbatim>\<open>converse\<close> return the error
  ``too in-depth conversation'' at once: the trace comes back as it was, so \<open>chat\<close>
  was not called.
\<close>

theorem converse_too_deep:
  "length messages > 13 \<Longrightarrow>
   converse_go e t messages = (Returned ([], Some (Err ''too in-depth conversation'')), t)"
  by (subst converse_go.simps) simp

theorem converse_too_deep_witness:
  "length (replicate 14 (user_message ''hi'')) > 13 \<and>
   converse_go demo_env [] (replicate 14 (user_message ''hi''))
     = (Returned ([], Some (Err ''too in-depth conversation'')), [])"
  using converse_too_deep [of "replicate 14 (user_message ''hi'')" demo_env "[]"] by simp

subsection \<open>The dispatcher\<close>

text \<open>
  C2. When the payload decodes and the name is neither \<open>geocode\<close> nor \<open>weather\<close>,
  \<open>invokeFunction\<close> returns the \<^verbatim>\<open>nil\<close> result and the \<^verbatim>\<open>nil\<close> error; it only
  prints its debug line.
\<close>

theorem invokeFunction_unregistered:
  "json_Unmarshal e argsIn = (args, None) \<Longrightarrow> name \<noteq> ''geocode'' \<Longrightarrow> name \<noteq> ''weather'' \<Longrightarrow>
   invokeFunction e t name argsIn = (Returned (None, None), t @ [DebugInvokeFunction name args])"
  by (simp add: invokeFunction_def)

theorem invokeFunction_unregistered_witness:
  "json_Unmarshal demo_env paris_args = (paris_fields, None) \<and>
   ''forecast'' \<noteq> ''geocode'' \<and> ''forecast'' \<noteq> ''weather'' \<and>
   invokeFunction demo_env [] ''forecast'' paris_args
     = (Returned (None, None),
        [DebugInvokeFunction ''forecast'' paris_fields])"
proof -
  have d: "json_Unmarshal demo_env paris_args = (paris_fields, None)"
    by (simp add: demo_env_def demo_Unmarshal_paris)
  have g: "''forecast'' \<noteq> ''geocode''" and w: "''forecast'' \<noteq> ''weather''"
    by simp_all
  from invokeFunction_unregistered [OF d g w, of "[]"] d show ?thesis
    by simp
qed

text \<open>
  C3, as the code has it. The one-result assertion \<^verbatim>\<open>args["latitude"].(string)\<close> panics
  on a number. So when the model asks for \<open>weather\<close> with a numeric latitude,
  \<open>invokeFunction\<close> returns nothing, neither a result nor an error value, and
  \<^verbatim>\<open>converse\<close> ends in the same panic after the one chat request: no handler runs, no
  HTTP request is sent and nothing is tried again.
\<close>

theorem weather_latitude_number_panics:
  assumes "length ms \<le> 13"
    and "CreateChatCompletion e t (openAIAPIKEY e) (chat_request ms) = (resp, None)"
    and "Choices resp = c # cs"
    and "FunctionCall (Message c) = Some fc"
    and "CallName fc = ''weather''"
    and "json_Unmarshal e (Arguments fc) = (args, None)"
    and "args ''latitude'' = Some (GoFloat64 x)"
  shows "invokeFunction e t' (CallName fc) (Arguments fc)
           = (Panicked (InterfaceConversion (GoFloat64 x)),
              t' @ [DebugInvokeFunction ''weather'' args])
         \<and> converse_go e t ms
           = (Panicked (InterfaceConversion (GoFloat64 x)),
              t @ [ChatCall (chat_request ms)] @ debug_choices (Choices resp)
                @ [DebugInvokeFunction ''weather'' args])"
proof -
  have i: "invokeFunction e u (CallName fc) (Arguments fc)
           = (Panicked (InterfaceConversion (GoFloat64 x)),
              u @ [DebugInvokeFunction ''weather'' args])" for u
    using assms(5-7) by (simp add: invokeFunction_def index_map_def)
  then show ?thesis
    using assms(1-4) by (simp add: converse_go_call_step)
qed

theorem weather_latitude_number_panics_witness:
  "length [user_message ''hi''] \<le> 13 \<and>
   CreateChatCompletion number_coords_env [] (openAIAPIKEY number_coords_env)
       (chat_request [user_message ''hi''])
     = one_choice (assistant_call ''weather'' number_coords_args) \<and>
   json_Unmarshal number_coords_env number_coords_args
     = (number_coords_fields, None) \<and>
   invokeFunction number_coords_env [] ''weather'' number_coords_args
     = (Panicked (InterfaceConversion (GoFloat64 (977 / 20))),
        [DebugInvokeFunction ''weather'' number_coords_fields]) \<and>
   converse_go number_coords_env [] [user_message ''hi'']
     = (Panicked (InterfaceConversion (GoFloat64 (977 / 20))),
        [ChatCall (chat_request [user_message ''hi'']),
         DebugChoice 0 (assistant_call ''weather'' number_coords_args),
         DebugInvokeFunction ''weather'' number_coords_fields])"
proof -
  let ?c = "\<lparr>Index = 0, Message = assistant_call ''weather'' number_coords_args,
             FinishReason = ''stop''\<rparr>"
  let ?fc = "\<lparr>CallName = ''weather'', Arguments = number_coords_args\<rparr>"
  have l: "length [user_message ''hi''] \<le> 13"
    by simp
  have b: "CreateChatCompletion number_coords_env [] (openAIAPIKEY number_coords_env)
       (chat_request [user_message ''hi'']) = (\<lparr>Choices = [?c]\<rparr>, None)"
    by (simp add: number_coords_env_def one_choice_def)
  have ch: "Choices \<lparr>Choices = [?c]\<rparr> = ?c # []"
    by simp
  have f: "FunctionCall (Message ?c) = Some ?fc"
    by (simp add: assistant_call_def)
  have n: "CallName ?fc = ''weather''"
    by simp
  have d: "json_Unmarshal number_coords_env (Arguments ?fc) = (number_coords_fields, None)"
    by (simp add: demo_Unmarshal_number number_coords_env_def demo_env_def)
  note r = weather_latitude_number_panics [OF l b ch f n d number_coords_fields_latitude, of "[]"]
  have b': "CreateChatCompletion number_coords_env [] (openAIAPIKEY number_coords_env)
       (chat_request [user_message ''hi''])
     = one_choice (assistant_call ''weather'' number_coords_args)"
    using b by (simp add: one_choice_def)
  have d': "json_Unmarshal number_coords_env number_coords_args = (number_coords_fields, None)"
    using d by simp
  have i: "invokeFunction number_coords_env [] ''weather'' number_coords_args
     = (Panicked (InterfaceConversion (GoFloat64 (977 / 20))),
        [DebugInvokeFunction ''weather'' number_coords_fields])"
    using r [THEN conjunct1] by simp
  have c: "converse_go number_coords_env [] [user_message ''hi'']
     = (Panicked (InterfaceConversion (GoFloat64 (977 / 20))),
        [ChatCall (chat_request [user_message ''hi'']),
         DebugChoice 0 (assistant_call ''weather'' number_coords_args),
         DebugInvokeFunction ''weather'' number_coords_fields])"
    using r [THEN conjunct2] by (simp add: debug_choices_def)
  from l b' d' i c show ?thesis
    by (intro conjI)
qed

text \<open>
  C3, as the claim states it, fails: on the payload with numeric coordinates the
  dispatcher does not return an error value, it panics.
\<close>

theorem invokeFunction_weather_number_counterexample:
  "fst (invokeFunction demo_env [] ''weather'' number_coords_args)
     = Panicked (InterfaceConversion (GoFloat64 (977 / 20)))"
  by (simp add: invokeFunction_def demo_Unmarshal_number demo_env_def index_map_def
      number_coords_fields_latitude)

text \<open>
  C4. When the payload decodes and the fields of a registered tool are strings, as the
  handlers take them, \<open>invokeFunction\<close> returns the very pair of bytes and error that
  \<open>geocode\<close> (for the name \<open>geocode\<close>) or \<open>weather\<close> (for the name \<open>weather\<close>)
  returns, and leaves the trace the handler left.
\<close>

theorem invokeFunction_registered:
  assumes "json_Unmarshal e argsIn = (args, None)"
  shows "(args ''location'' = Some (GoString location)
            \<and> geocode e (t @ [DebugInvokeFunction ''geocode'' args]) location = (r, t2) \<longrightarrow>
            invokeFunction e t ''geocode'' argsIn = (Returned r, t2))
       \<and> (args ''latitude'' = Some (GoString lat) \<and> args ''longitude'' = Some (GoString lon)
            \<and> weather e (t @ [DebugInvokeFunction ''weather'' args]) lat lon = (r', t2') \<longrightarrow>
            invokeFunction e t ''weather'' argsIn = (Returned r', t2'))"
  using assms by (simp add: invokeFunction_def index_map_def Let_def)

theorem invokeFunction_registered_witness:
  "json_Unmarshal demo_env paris_args = (paris_fields, None) \<and>
   geocode demo_env [DebugInvokeFunction ''geocode'' paris_fields] ''Paris''
     = ((Some ''48.85,2.35'', None),
        [DebugInvokeFunction ''geocode'' paris_fields,
         HttpGet (geocode_url ''Paris''), BodyClose (geocode_url ''Paris'')]) \<and>
   invokeFunction demo_env [] ''geocode'' paris_args
     = (Returned (Some ''48.85,2.35'', None),
        [DebugInvokeFunction ''geocode'' paris_fields,
         HttpGet (geocode_url ''Paris''), BodyClose (geocode_url ''Paris'')]) \<and>
   json_Unmarshal demo_env string_coords_args
     = (string_coords_fields, None) \<and>
   invokeFunction demo_env [] ''weather'' string_coords_args
     = (Returned
          (fst (weather demo_env [DebugInvokeFunction ''weather'' string_coords_fields]
                  ''48.85'' ''2.35'')),
        snd (weather demo_env [DebugInvokeFunction ''weather'' string_coords_fields]
               ''48.85'' ''2.35''))"
proof -
  have dp: "json_Unmarshal demo_env paris_args = (paris_fields, None)"
    by (simp add: demo_env_def demo_Unmarshal_paris)
  have ds: "json_Unmarshal demo_env string_coords_args = (string_coords_fields, None)"
    by (simp add: demo_env_def demo_Unmarshal_string)
  have g: "invokeFunction demo_env [] ''geocode'' paris_args
     = (Returned (Some ''48.85,2.35'', None),
        [DebugInvokeFunction ''geocode'' paris_fields,
         HttpGet (geocode_url ''Paris''), BodyClose (geocode_url ''Paris'')])"
    using invokeFunction_registered [OF dp, THEN conjunct1, of "''Paris''" "[]"]
      paris_fields_location demo_geocode_paris
    by simp
  have w: "invokeFunction demo_env [] ''weather'' string_coords_args
     = (Returned
          (fst (weather demo_env [DebugInvokeFunction ''weather'' string_coords_fields]
                  ''48.85'' ''2.35'')),
        snd (weather demo_env [DebugInvokeFunction ''weather'' string_coords_fields]
               ''48.85'' ''2.35''))"
    using invokeFunction_registered [OF ds, THEN conjunct2, of "''48.85''" "''2.35''" "[]"]
      string_coords_fields_latitude string_coords_fields_longitude
    by simp
  from dp demo_geocode_paris g ds w show ?thesis
    by (intro conjI)
qed

text \<open>
  C7. When decoding the payload fails, \<open>invokeFunction\<close> returns the \<^verbatim>\<open>nil\<close> result
  with the decoder's error, whatever the tool name; the trace gains the debug line and
  nothing else, so no handler ran and no HTTP request was sent.
\<close>

theorem invokeFunction_decode_error:
  "json_Unmarshal e argsIn = (args, Some x) \<Longrightarrow>
   invokeFunction e t name argsIn = (Returned (None, Some x), t @ [DebugInvokeFunction name args])"
  by (simp add: invokeFunction_def)

theorem invokeFunction_decode_error_witness:
  "json_Unmarshal demo_env [] = (Map.empty, Some (Err ''unexpected end of JSON input'')) \<and>
   invokeFunction demo_env [] ''geocode'' []
     = (Returned (None, Some (Err ''unexpected end of JSON input'')),
        [DebugInvokeFunction ''geocode'' Map.empty])"
proof -
  have d: "json_Unmarshal demo_env [] = (Map.empty, Some (Err ''unexpected end of JSON input''))"
    by (simp add: demo_env_def demo_Unmarshal_empty)
  from invokeFunction_decode_error [OF d, of "[]" "''geocode''"] d show ?thesis
    by simp
qed

subsection \<open>The entry point\<close>

text \<open>
  C5. \<open>query\<close> is \<^verbatim>\<open>converse\<close> on three messages: the two system instructions, in
  this order, then the user message with the inquiry. The first thing the run does is the
  chat request carrying exactly this transcript.
\<close>

theorem query_initial_transcript:
  "query e t inquiry
     = converse_go e t
         [\<lparr>Role = ''system'', Content = ''Only use the functions you have been provided with.'',
           Name = [], FunctionCall = None\<rparr>,
          \<lparr>Role = ''system'', Content = ''Only answer in 50 words or less.'',
           Name = [], FunctionCall = None\<rparr>,
          \<lparr>Role = ''user'', Content = inquiry, Name = [], FunctionCall = None\<rparr>]
   \<and> take (Suc (length t)) (snd (query e t inquiry))
     = t @ [ChatCall (chat_request
         [\<lparr>Role = ''system'', Content = ''Only use the functions you have been provided with.'',
           Name = [], FunctionCall = None\<rparr>,
          \<lparr>Role = ''system'', Content = ''Only answer in 50 words or less.'',
           Name = [], FunctionCall = None\<rparr>,
          \<lparr>Role = ''user'', Content = inquiry, Name = [], FunctionCall = None\<rparr>])]"
  by (simp add: query_def converse_go_first_event)

subsection \<open>One tool round trip\<close>

text \<open>
  C6. When the first choice asks for a tool and the dispatcher returns without error,
  \<^verbatim>\<open>converse\<close> continues as \<^verbatim>\<open>converse\<close> on the old transcript, unchanged, followed
  by two messages: the assistant's message with the call, then a message of role
  \<open>function\<close> named after the tool called and holding the dispatcher's output. If that
  transcript is within the depth bound, the next chat request carries it.
\<close>

theorem converse_tool_round_trip:
  assumes "length ms \<le> 13"
    and "CreateChatCompletion e t (openAIAPIKEY e) (chat_request ms) = (resp, None)"
    and "Choices resp = c # cs"
    and "FunctionCall (Message c) = Some fc"
    and "invokeFunction e (t @ [ChatCall (chat_request ms)] @ debug_choices (Choices resp))
           (CallName fc) (Arguments fc) = (Returned (r, None), t3)"
  shows "converse_go e t ms
           = converse_go e t3
               (ms @ [Message c,
                      \<lparr>Role = ''function'', Content = string_of_bytes r,
                       Name = CallName fc, FunctionCall = None\<rparr>])
         \<and> (length ms \<le> 11 \<longrightarrow>
              take (Suc (length t3)) (snd (converse_go e t ms))
                = t3 @ [ChatCall (chat_request
                          (ms @ [Message c,
                                 \<lparr>Role = ''function'', Content = string_of_bytes r,
                                  Name = CallName fc, FunctionCall = None\<rparr>]))])"
proof -
  let ?new = "ms @ [Message c, function_message fc r]"
  have eq: "converse_go e t ms = converse_go e t3 ?new"
    using assms by (simp add: converse_go_call_step)
  have "take (Suc (length t3)) (snd (converse_go e t3 ?new)) = t3 @ [ChatCall (chat_request ?new)]"
    if "length ms \<le> 11"
    using that by (intro converse_go_first_event) simp
  with eq show ?thesis
    by (simp add: function_message_def ChatMessageRoleFunction_def)
qed

theorem converse_tool_round_trip_witness:
  "length demo_transcript \<le> 13 \<and>
   CreateChatCompletion demo_env [] (openAIAPIKEY demo_env) (chat_request demo_transcript)
     = one_choice (assistant_call ''geocode'' paris_args) \<and>
   invokeFunction demo_env
       [ChatCall (chat_request demo_transcript),
        DebugChoice 0 (assistant_call ''geocode'' paris_args)]
       ''geocode'' paris_args
     = (Returned (Some ''48.85,2.35'', None), demo_geocode_trace) \<and>
   converse_go demo_env [] demo_transcript
     = converse_go demo_env demo_geocode_trace
         (demo_transcript @
          [assistant_call ''geocode'' paris_args,
           \<lparr>Role = ''function'', Content = ''48.85,2.35'', Name = ''geocode'',
            FunctionCall = None\<rparr>]) \<and>
   take (Suc (length demo_geocode_trace)) (snd (converse_go demo_env [] demo_transcript))
     = demo_geocode_trace @
       [ChatCall (chat_request
          (demo_transcript @
           [assistant_call ''geocode'' paris_args,
            \<lparr>Role = ''function'', Content = ''48.85,2.35'', Name = ''geocode'',
             FunctionCall = None\<rparr>]))]"
proof -
  let ?c = "\<lparr>Index = 0, Message = assistant_call ''geocode'' paris_args, FinishReason = ''stop''\<rparr>"
  let ?fc = "\<lparr>CallName = ''geocode'', Arguments = paris_args\<rparr>"
  have l: "length demo_transcript \<le> 13"
    by (simp add: demo_transcript_def)
  have b: "CreateChatCompletion demo_env [] (openAIAPIKEY demo_env) (chat_request demo_transcript)
     = (\<lparr>Choices = [?c]\<rparr>, None)"
    by (simp add: demo_env_def demo_CreateChatCompletion_def chat_request_def demo_transcript_def
        one_choice_def)
  have ch: "Choices \<lparr>Choices = [?c]\<rparr> = ?c # []"
    by simp
  have f: "FunctionCall (Message ?c) = Some ?fc"
    by (simp add: assistant_call_def)
  have i': "invokeFunction demo_env
       [ChatCall (chat_request demo_transcript),
        DebugChoice 0 (assistant_call ''geocode'' paris_args)]
       ''geocode'' paris_args
     = (Returned (Some ''48.85,2.35'', None), demo_geocode_trace)"
    by (simp add: invokeFunction_def demo_env_def demo_Unmarshal_paris index_map_def
        paris_fields_location geocode_def demo_http_Get_def ioutil_ReadAll_def
        demo_geocode_trace_def Let_def)
  have i: "invokeFunction demo_env
       ([] @ [ChatCall (chat_request demo_transcript)] @ debug_choices (Choices \<lparr>Choices = [?c]\<rparr>))
       (CallName ?fc) (Arguments ?fc)
     = (Returned (Some ''48.85,2.35'', None), demo_geocode_trace)"
    using i' by (simp add: debug_choices_def)
  have l11: "length demo_transcript \<le> 11"
    by (simp add: demo_transcript_def)
  note r = converse_tool_round_trip [OF l b ch f i]
  have b': "CreateChatCompletion demo_env [] (openAIAPIKEY demo_env) (chat_request demo_transcript)
     = one_choice (assistant_call ''geocode'' paris_args)"
    using b by (simp add: one_choice_def)
  have r1: "converse_go demo_env [] demo_transcript
     = converse_go demo_env demo_geocode_trace
         (demo_transcript @
          [assistant_call ''geocode'' paris_args,
           \<lparr>Role = ''function'', Content = ''48.85,2.35'', Name = ''geocode'',
            FunctionCall = None\<rparr>])"
    using r [THEN conjunct1] by simp
  have r2: "take (Suc (length demo_geocode_trace)) (snd (converse_go demo_env [] demo_transcript))
     = demo_geocode_trace @
       [ChatCall (chat_request
          (demo_transcript @
           [assistant_call ''geocode'' paris_args,
            \<lparr>Role = ''function'', Content = ''48.85,2.35'', Name = ''geocode'',
             FunctionCall = None\<rparr>]))]"
    using r [THEN conjunct2] l11 by simp
  from l b' i' r1 r2 show ?thesis
    by (intro conjI)
qed

subsection \<open>The gateway fails, or answers with no choice\<close>

text \<open>
  C8. Within the depth bound, when the backend call fails, \<^verbatim>\<open>converse\<close> returns an error
  carrying the backend's message. The trace gains the one chat request and nothing else:
  there is no second attempt, no dispatch and no HTTP request.
\<close>

theorem converse_backend_error:
  "length messages \<le> 13 \<Longrightarrow>
   CreateChatCompletion e t (openAIAPIKEY e) (chat_request messages) = (resp, Some x) \<Longrightarrow>
   converse_go e t messages
     = (Returned ([], Some (Err (''failed chat: '' @ Error x))),
        t @ [ChatCall (chat_request messages)])"
  by (subst converse_go.simps) (simp add: chat_def)

theorem converse_backend_error_witness:
  "length [user_message ''hi''] \<le> 13 \<and>
   CreateChatCompletion backend_down_env [] (openAIAPIKEY backend_down_env)
       (chat_request [user_message ''hi''])
     = (\<lparr>Choices = []\<rparr>, Some (Err ''connection refused'')) \<and>
   converse_go backend_down_env [] [user_message ''hi'']
     = (Returned ([], Some (Err ''failed chat: connection refused'')),
        [ChatCall (chat_request [user_message ''hi''])])"
proof -
  have l: "length [user_message ''hi''] \<le> 13"
    by simp
  have b: "CreateChatCompletion backend_down_env [] (openAIAPIKEY backend_down_env)
       (chat_request [user_message ''hi''])
     = (\<lparr>Choices = []\<rparr>, Some (Err ''connection refused''))"
    by (simp add: backend_down_env_def)
  from converse_backend_error [OF l b] l b show ?thesis
    by simp
qed

text \<open>
  C9. Within the depth bound, after a backend call that succeeds, \<^verbatim>\<open>converse\<close> stops
  right after the chat request with the panic ``index out of range [0] with length 0''
  exactly when the response holds no choice: element 0 is read without a test of the
  length.
\<close>

theorem converse_no_choice:
  assumes "length ms \<le> 13"
    and "CreateChatCompletion e t (openAIAPIKEY e) (chat_request ms) = (resp, None)"
  shows "converse_go e t ms = (Panicked (IndexOutOfRange 0 0), t @ [ChatCall (chat_request ms)])
           \<longleftrightarrow> Choices resp = []"
proof
  assume "Choices resp = []"
  with assms
  show "converse_go e t ms = (Panicked (IndexOutOfRange 0 0), t @ [ChatCall (chat_request ms)])"
    by (subst converse_go.simps) (simp add: chat_def debug_choices_def)
next
  assume p: "converse_go e t ms = (Panicked (IndexOutOfRange 0 0), t @ [ChatCall (chat_request ms)])"
  show "Choices resp = []"
  proof (rule ccontr)
    assume "Choices resp \<noteq> []"
    then obtain c cs where cs: "Choices resp = c # cs"
      by (cases "Choices resp") auto
    let ?t2 = "t @ ChatCall (chat_request ms) # debug_choices (c # cs)"
    have "prefix ?t2 (snd (converse_go e t ms))"
    proof (cases "FunctionCall (Message c)")
      case None
      with assms cs show ?thesis
        by (simp add: converse_go_answer_step)
    next
      case (Some fc)
      obtain out t3 where i: "invokeFunction e ?t2 (CallName fc) (Arguments fc) = (out, t3)"
        by (cases "invokeFunction e ?t2 (CallName fc) (Arguments fc)")
      have "prefix ?t2 t3"
        using invokeFunction_trace [of ?t2 e "CallName fc" "Arguments fc"] i by simp
      then show ?thesis
        using assms cs Some i
        by (auto simp: converse_go_call_step converse_go_trace_from
            split: outcome.split option.split prod.split)
    qed
    with p have "prefix ?t2 (t @ [ChatCall (chat_request ms)])"
      by simp
    then have "length ?t2 \<le> length (t @ [ChatCall (chat_request ms)])"
      by (rule prefix_length_le)
    then show False
      by (simp add: debug_choices_def)
  qed
qed

theorem converse_no_choice_witness:
  "length [user_message ''hi''] \<le> 13 \<and>
   CreateChatCompletion no_choice_env [] (openAIAPIKEY no_choice_env)
       (chat_request [user_message ''hi''])
     = (\<lparr>Choices = []\<rparr>, None) \<and>
   converse_go no_choice_env [] [user_message ''hi'']
     = (Panicked (IndexOutOfRange 0 0), [ChatCall (chat_request [user_message ''hi''])])"
proof -
  have l: "length [user_message ''hi''] \<le> 13"
    by simp
  have b: "CreateChatCompletion no_choice_env [] (openAIAPIKEY no_choice_env)
       (chat_request [user_message ''hi''])
     = (\<lparr>Choices = []\<rparr>, None)"
    by (simp add: no_choice_env_def)
  from converse_no_choice [OF l b] l b show ?thesis
    by simp
qed

subsection \<open>The weather request\<close>

text \<open>
  C10. The first thing \<open>weather\<close> does is an HTTP GET, and its URL carries the latitude as
  \<^verbatim>\<open>lat=$\<close> followed by the latitude, with a dollar sign in front of the value; the
  longitude and the API key follow \<^verbatim>\<open>lon=\<close> and \<^verbatim>\<open>appid=\<close> directly.
\<close>

theorem weather_url_dollar:
  "take (Suc (length t)) (snd (weather e t lat lon))
     = t @ [HttpGet (''https://api.openweathermap.org/data/2.5/weather?units=metric&lat=$'' @ lat
              @ ''&lon='' @ lon @ ''&appid='' @ openWeatherMapAPIKEY e)]"
  by (simp add: weather_def weather_url_def Let_def split: prod.split option.split)

end
